theory Spec2Isabelle
  imports Complex_Main "HOL-Library.Word"
begin

chapter \<open>Playback observation pipeline and ISOBMFF chunk timing of the RxPlayer\<close>

text \<open>
  The development embeds three source files:
  \<^item> \<^verbatim>\<open>src/transports/dash/isobmff_timing_infos.ts\<close>,
  \<^item> \<^verbatim>\<open>src/core/init/multithread/worker/worker_playback_observer.ts\<close>,
  \<^item> \<^verbatim>\<open>src/main_thread/init/utils/create_core_playback_observer.ts\<close>.

  JavaScript numbers are idealised as \<^typ>\<open>real\<close>: there is no rounding, no \<open>NaN\<close> and no
  infinity (a division by zero, which JavaScript answers with \<open>Infinity\<close> or \<open>NaN\<close>, is the
  HOL value \<open>x / 0 = 0\<close>). \<open>undefined\<close> and \<open>null\<close> are \<^const>\<open>None\<close>.
\<close>

section \<open>Definitions\<close>

subsection \<open>ISOBMFF chunk timing (\<^verbatim>\<open>isobmff_timing_infos.ts\<close>)\<close>








subsection \<open>Shared references and cancellation signals\<close>

text \<open>
  Modelled from the spec: the classes of \<^verbatim>\<open>utils/reference\<close> and \<^verbatim>\<open>utils/task_canceller\<close>
  are imported by the embedded sources but are not part of them. The records follow the
  spec's data model: a reference has a current value, an ordered list of (listener, options)
  pairs and a disposed flag; a signal has a cancelled flag and an ordered list of cleanup
  callbacks (its optional cancellation reason is read by none of the embedded code and is
  left out). A listener is named by a value of type \<open>'cb\<close>, a signal by a value of type \<open>'s\<close>,
  a cleanup by a value of type \<open>'c\<close>.
\<close>

text \<open>Modelled from the spec: the options of \<open>onUpdate\<close>, each of which may be absent.\<close>

record 's on_update_options =
  clearSignal :: "'s option"
  emitCurrentValue :: "bool option"

text \<open>
  Modelled from the spec: the Shared Reference of its data model (current value, ordered
  list of (listener, options) pairs, disposed flag).
\<close>

record ('v, 'cb, 's) shared_reference =
  ref_value :: 'v
  ref_listeners :: "('cb \<times> 's on_update_options) list"
  ref_disposed :: bool

text \<open>
  Modelled from the spec: the Cancellation Signal of its data model (cancelled flag, ordered
  list of cleanup callbacks).
\<close>

record 'c cancellation_signal =
  sig_cancelled :: bool
  sig_cleanups :: "'c list"

text \<open>Modelled from the spec: \<open>get()\<close> returns the current value, never fails.\<close>

definition getValue :: "('v, 'cb, 's) shared_reference \<Rightarrow> 'v" where
  "getValue r = ref_value r"

text \<open>
  Modelled from the spec: the first half of \<open>set(value)\<close>, which replaces the current value;
  once disposed, no further update is accepted. The notification of the listeners is written
  with each world below, since it runs their callbacks.
\<close>

definition storeValue :: "'v \<Rightarrow> ('v, 'cb, 's) shared_reference \<Rightarrow> ('v, 'cb, 's) shared_reference" where
  "storeValue v r = (if ref_disposed r then r else r\<lparr> ref_value := v \<rparr>)"

text \<open>
  Modelled from the spec: the registration of a listener by \<open>onUpdate\<close>, last in
  registration order; a disposed reference keeps its listener list empty.
\<close>

definition addListener ::
  "'cb \<Rightarrow> 's on_update_options \<Rightarrow> ('v, 'cb, 's) shared_reference \<Rightarrow> ('v, 'cb, 's) shared_reference" where
  "addListener cb options r =
     (if ref_disposed r then r else r\<lparr> ref_listeners := ref_listeners r @ [(cb, options)] \<rparr>)"

text \<open>
  Modelled from the spec: the cleanup that \<open>onUpdate\<close> registers on \<open>clearSignal\<close>, which
  unregisters the callback (one registration of it).
\<close>

definition removeListener ::
  "'cb \<Rightarrow> 's on_update_options \<Rightarrow> ('v, 'cb, 's) shared_reference \<Rightarrow> ('v, 'cb, 's) shared_reference" where
  "removeListener cb options r = r\<lparr> ref_listeners := remove1 (cb, options) (ref_listeners r) \<rparr>"

text \<open>
  Modelled from the spec: disposal through the owning cancellation signal clears the listener
  list; the reference accepts no update afterwards.
\<close>

definition dispose :: "('v, 'cb, 's) shared_reference \<Rightarrow> ('v, 'cb, 's) shared_reference" where
  "dispose r = r\<lparr> ref_listeners := [], ref_disposed := True \<rparr>"

text \<open>Modelled from the spec: \<open>isCancelled()\<close>, a pure query.\<close>

definition isCancelled :: "'c cancellation_signal \<Rightarrow> bool" where
  "isCancelled s = sig_cancelled s"

text \<open>
  Modelled from the spec: \<open>register(cleanup)\<close> on a signal that is not cancelled stores the
  cleanup, last in registration order. On a cancelled signal the cleanup is invoked at once
  instead; that case is written with each world below.
\<close>

definition addCleanup :: "'c \<Rightarrow> 'c cancellation_signal \<Rightarrow> 'c cancellation_signal" where
  "addCleanup c s = s\<lparr> sig_cleanups := sig_cleanups s @ [c] \<rparr>"

subsection \<open>The worker's playback observer (\<^verbatim>\<open>worker_playback_observer.ts\<close>)\<close>

text \<open>
  \<open>WorkerMessageType\<close> is declared in \<^verbatim>\<open>multithread_types\<close>, outside the embedded sources;
  \<open>UpdatePlaybackRate\<close> is the member this class sends. A message is the object literal of
  \<open>setPlaybackRate\<close>: \<open>{ type, contentId, value }\<close>.
\<close>

datatype worker_message_type = UpdatePlaybackRate

record worker_message =
  msg_type :: worker_message_type
  msg_contentId :: string
  msg_value :: real

text \<open>
  The objects the class points to live in a store: references and cancellation signals are
  addressed by natural numbers, callbacks are named by natural numbers. The type \<open>'o\<close> is
  \<open>IWorkerPlaybackObservation\<close>. \<open>ww_outbox\<close> holds the messages handed to \<open>sendMessage\<close>,
  oldest first; \<open>ww_calls\<close> records each invocation of a listener callback with the value it
  received. A callback is opaque: what it does itself is not modelled.
\<close>

datatype worker_cleanup = Unlisten nat nat "nat on_update_options"

record 'o worker_world =
  ww_refs :: "nat \<Rightarrow> ('o, nat, nat) shared_reference"
  ww_signals :: "nat \<Rightarrow> worker_cleanup cancellation_signal"
  ww_outbox :: "worker_message list"
  ww_calls :: "(nat \<times> 'o) list"

text \<open>The private fields \<open>_src\<close>, \<open>_contentId\<close> and \<open>_cancelSignal\<close>, set by the constructor.\<close>

record worker_playback_observer =
  wpo_src :: nat
  wpo_contentId :: string
  wpo_cancelSignal :: nat

definition WorkerPlaybackObserver :: "nat \<Rightarrow> string \<Rightarrow> nat \<Rightarrow> worker_playback_observer" where
  "WorkerPlaybackObserver src contentId cancellationSignal =
     \<lparr> wpo_src = src, wpo_contentId = contentId, wpo_cancelSignal = cancellationSignal \<rparr>"

text \<open>
  Modelled from the spec: \<open>sendMessage\<close> (\<^verbatim>\<open>./send_message\<close>, not part of the embedded
  sources) hands one message to the cross-boundary transport and returns; no
  acknowledgement is awaited.
\<close>

definition sendMessage :: "worker_message \<Rightarrow> 'o worker_world \<Rightarrow> 'o worker_world" where
  "sendMessage msg w = w\<lparr> ww_outbox := ww_outbox w @ [msg] \<rparr>"

text \<open>
  Modelled from the spec: \<open>onUpdate(callback, options)\<close> of the reference at address \<open>r\<close>.
  If \<open>options.clearSignal\<close> is given and already cancelled this is a no-op. Otherwise the
  callback is registered, invoked once with the current value if \<open>options.emitCurrentValue\<close>
  is true, and a cleanup that unregisters it is registered on \<open>clearSignal\<close>.
\<close>

definition onUpdate :: "nat \<Rightarrow> nat \<Rightarrow> nat on_update_options \<Rightarrow> 'o worker_world \<Rightarrow> 'o worker_world" where
  "onUpdate r cb options w =
     (if (case clearSignal options of None \<Rightarrow> False | Some s \<Rightarrow> isCancelled (ww_signals w s))
      then w
      else
        let w1 = w\<lparr> ww_refs := (ww_refs w)(r := addListener cb options (ww_refs w r)) \<rparr>;
            w2 = (if emitCurrentValue options = Some True
                  then w1\<lparr> ww_calls := ww_calls w1 @ [(cb, getValue (ww_refs w1 r))] \<rparr>
                  else w1)
        in (case clearSignal options of
              None \<Rightarrow> w2
            | Some s \<Rightarrow>
                w2\<lparr> ww_signals :=
                      (ww_signals w2)(s := addCleanup (Unlisten r cb options) (ww_signals w2 s)) \<rparr>))"

text \<open>
  Modelled from the spec: \<open>set(value)\<close> of the reference at address \<open>r\<close> replaces the current
  value, then notifies all currently registered listeners with the new value, in
  registration order.
\<close>

definition setValue :: "nat \<Rightarrow> 'o \<Rightarrow> 'o worker_world \<Rightarrow> 'o worker_world" where
  "setValue r v w =
     (if ref_disposed (ww_refs w r) then w
      else
        let w1 = w\<lparr> ww_refs := (ww_refs w)(r := storeValue v (ww_refs w r)) \<rparr>
        in w1\<lparr> ww_calls := ww_calls w1 @ map (\<lambda>l. (fst l, v)) (ref_listeners (ww_refs w1 r)) \<rparr>)"

text \<open>
  The four direct clock queries and \<open>getReference\<close>. A method is a function of the observer
  and the world that returns its result and the world it leaves.
\<close>

definition getCurrentTime :: "worker_playback_observer \<Rightarrow> 'o worker_world \<Rightarrow> real option \<times> 'o worker_world" where
  "getCurrentTime this w = (None, w)"

definition getReadyState :: "worker_playback_observer \<Rightarrow> 'o worker_world \<Rightarrow> real option \<times> 'o worker_world" where
  "getReadyState this w = (None, w)"

definition getIsPaused :: "worker_playback_observer \<Rightarrow> 'o worker_world \<Rightarrow> bool option \<times> 'o worker_world" where
  "getIsPaused this w = (None, w)"

definition getReference :: "worker_playback_observer \<Rightarrow> 'o worker_world \<Rightarrow> nat \<times> 'o worker_world" where
  "getReference this w = (wpo_src this, w)"

definition getPlaybackRate :: "worker_playback_observer \<Rightarrow> 'o worker_world \<Rightarrow> real option \<times> 'o worker_world" where
  "getPlaybackRate this w = (None, w)"

definition setPlaybackRate :: "worker_playback_observer \<Rightarrow> real \<Rightarrow> 'o worker_world \<Rightarrow> 'o worker_world" where
  "setPlaybackRate this playbackRate w =
     sendMessage \<lparr> msg_type = UpdatePlaybackRate,
                   msg_contentId = wpo_contentId this,
                   msg_value = playbackRate \<rparr> w"

text \<open>
  The optional second argument of \<open>listen\<close>: \<open>None\<close> when it is omitted, and each of its two
  properties may be undefined.
\<close>

record listen_options =
  includeLastObservation :: "bool option"
  lo_clearSignal :: "nat option"

definition listen ::
  "worker_playback_observer \<Rightarrow> nat \<Rightarrow> listen_options option \<Rightarrow> 'o worker_world \<Rightarrow> 'o worker_world" where
  "listen this cb options w =
     (if isCancelled (ww_signals w (wpo_cancelSignal this)) \<or>
         (case options of
            None \<Rightarrow> False
          | Some opts \<Rightarrow>
              (case lo_clearSignal opts of
                 None \<Rightarrow> False
               | Some s \<Rightarrow> isCancelled (ww_signals w s)))
      then w
      else
        onUpdate (wpo_src this) cb
          \<lparr> clearSignal = (case options of None \<Rightarrow> None | Some opts \<Rightarrow> lo_clearSignal opts),
            emitCurrentValue =
              (case options of None \<Rightarrow> None | Some opts \<Rightarrow> includeLastObservation opts) \<rparr>
          w)"

text \<open>
  Modelled from the spec: the handler of inbound observation messages, which is not part of
  the embedded sources. The backing reference is populated solely by inbound messages tagged
  with the identifier of the active content, the one the observer was built for, by a plain
  \<open>set\<close>; a message for any other identifier is dropped.
\<close>

record 'o observation_message =
  om_contentId :: string
  om_value :: 'o

text \<open>
  Modelled from the spec: the handling of one inbound observation message for the observer
  \<open>this\<close>.
\<close>

definition onObservationMessage ::
  "worker_playback_observer \<Rightarrow> 'o observation_message \<Rightarrow> 'o worker_world \<Rightarrow> 'o worker_world" where
  "onObservationMessage this msg w =
     (if om_contentId msg = wpo_contentId this
      then setValue (wpo_src this) (om_value msg) w
      else w)"

subsection \<open>The core playback observer (\<^verbatim>\<open>create_core_playback_observer.ts\<close>)\<close>

text \<open>
  Modelled from the spec: the class \<open>ObservationPosition\<close> behind \<open>observation.position\<close> is
  not part of the embedded sources. A position holds the current (polled) position and the
  "wanted" pending seek target, which may be absent; \<open>getWanted\<close> answers the wanted
  position, the current one while no target is pending, and \<open>forceWantedPosition\<close>
  overwrites the wanted position of the object.
\<close>

record observation_position =
  pos_polled :: real
  pos_wanted :: "real option"

text \<open>Modelled from the spec: \<open>getWanted()\<close> of a position object.\<close>

definition getWanted :: "observation_position \<Rightarrow> real" where
  "getWanted p = (case pos_wanted p of None \<Rightarrow> pos_polled p | Some x \<Rightarrow> x)"

text \<open>Modelled from the spec: \<open>forceWantedPosition(x)\<close> of a position object.\<close>

definition forceWantedPosition :: "real \<Rightarrow> observation_position \<Rightarrow> observation_position" where
  "forceWantedPosition x p = p\<lparr> pos_wanted := Some x \<rparr>"

text \<open>
  \<open>TimeRanges\<close>: the list of the ranges as (start, end) pairs, so that \<open>buffered.length\<close> is
  the length of the list and \<open>buffered.end(i)\<close> the second component of its \<open>i\<close>-th element.
\<close>

type_synonym time_ranges = "(real \<times> real) list"

text \<open>
  The fields of \<open>IPlaybackObservation\<close> that the builder reads. \<open>obs_position\<close> is the address
  of the \<open>ObservationPosition\<close> object in the store of positions: the object is shared with
  every holder of the observation. The types \<open>'r\<close> and \<open>'f\<close> are those of the rebuffering and
  freezing indicators, which the builder only copies.
\<close>

record ('r, 'f) playback_observation =
  obs_position :: nat
  obs_bufferGap :: "real option"
  obs_buffered :: time_ranges
  obs_duration :: real
  obs_rebuffering :: 'r
  obs_freezing :: 'f
  obs_paused :: bool
  obs_readyState :: real

text \<open>
  The fields of \<open>IManifestMetadata\<close> and of its periods that the builder reads. The record is
  extensible: whatever else a manifest holds is its \<open>more\<close> part, which
  \<open>getMaximumSafePosition\<close> may read.
\<close>

record period =
  period_start :: real
  period_end :: "real option"

record manifest_metadata =
  isDynamic :: bool
  isLastPeriodKnown :: bool
  periods :: "period list"

text \<open>\<open>manifest.periods[manifest.periods.length - 1]\<close>, \<open>undefined\<close> on an empty array.\<close>

definition lastPeriodOf :: "'m manifest_metadata_scheme \<Rightarrow> period option" where
  "lastPeriodOf manifest =
     (if periods manifest = [] then None
      else Some (periods manifest ! (length (periods manifest) - 1)))"

text \<open>
  \<open>updateWantedPositionIfAfterManifest(observation, manifest)\<close>. Its only effect is the call
  of \<open>observation.position.forceWantedPosition\<close>: the function takes the store of positions
  and returns the store it leaves.
\<close>

definition updateWantedPositionIfAfterManifest ::
  "('r, 'f) playback_observation \<Rightarrow> 'm manifest_metadata_scheme \<Rightarrow>
   (nat \<Rightarrow> observation_position) \<Rightarrow> (nat \<Rightarrow> observation_position)" where
  "updateWantedPositionIfAfterManifest observation manifest positions =
     (if \<not> isDynamic manifest \<or> isLastPeriodKnown manifest then
        (case lastPeriodOf manifest of
           None \<Rightarrow> positions
         | Some lastPeriod \<Rightarrow>
             (case period_end lastPeriod of
                None \<Rightarrow> positions
              | Some lastPeriodEnd \<Rightarrow>
                  let wantedPosition = getWanted (positions (obs_position observation)) in
                  if wantedPosition \<ge> period_start lastPeriod \<and>
                     wantedPosition \<ge> lastPeriodEnd - 1
                  then
                    let buffered = obs_buffered observation in
                    if length buffered = 0 \<or>
                       snd (buffered ! (length buffered - 1)) < obs_duration observation - 1
                    then positions(obs_position observation :=
                           forceWantedPosition (lastPeriodEnd - 1)
                             (positions (obs_position observation)))
                    else positions
                  else positions))
      else positions)"

text \<open>\<open>getPendingPaused(initialPlayPerformed, autoPlay)\<close>\<close>

definition getPendingPaused :: "(bool, 'cb, 's) shared_reference \<Rightarrow> bool \<Rightarrow> bool option" where
  "getPendingPaused initialPlayPerformed autoPlay =
     (if getValue initialPlayPerformed then None else Some (\<not> autoPlay))"

text \<open>
  \<open>ICorePlaybackObservation\<close>, the object literal that \<open>constructCorePlaybackObservation\<close>
  returns. \<open>core_position\<close> is again the address of the position object. The type \<open>'b\<close> is the
  result type of \<open>getBufferedDataPerMediaBuffer\<close>.
\<close>

record paused_state =
  paused_last :: bool
  paused_pending :: "bool option"

record ('r, 'f, 'b) core_playback_observation =
  core_maximumPosition :: real
  core_bufferGap :: "real option"
  core_position :: nat
  core_buffered :: 'b
  core_duration :: real
  core_rebuffering :: 'r
  core_freezing :: 'f
  core_paused :: paused_state
  core_readyState :: real
  core_speed :: real

text \<open>
  The listeners of the references the builder subscribes to are its own callback
  \<open>emitCorePlaybackObservation\<close> and the callbacks of other parties, which are opaque and
  named by a number. The signals are the two that the builder receives and the signal of the
  \<open>TaskCanceller\<close> it creates. A cleanup is one of those that the builder causes to be
  registered (\<open>CancelCanceller\<close> by \<open>linkToSignal\<close>, \<open>DisposeNewRef\<close> by the constructor of
  \<open>newRef\<close>, \<open>UnlistenSpeed\<close> and \<open>UnlistenObservation\<close> by the two \<open>onUpdate\<close> calls) or an
  opaque one of another party.
\<close>

datatype core_callback = EmitCorePlaybackObservation | ExternalCallback nat

datatype signal_name = ParentObserverCancelSignal | FnCancelSignal | CancellerSignal

datatype core_cleanup =
    CancelCanceller
  | DisposeNewRef
  | UnlistenSpeed core_callback "signal_name on_update_options"
  | UnlistenObservation core_callback "signal_name on_update_options"
  | ExternalCleanup nat

text \<open>
  The arguments of \<open>createCorePlaybackObserver\<close> that never change: \<open>autoPlay\<close>, and the two
  imported functions \<open>getMaximumSafePosition\<close> and \<open>getBufferedDataPerMediaBuffer\<close>, which are
  not part of the embedded sources and are parameters here.
\<close>

record ('m, 'ms, 'td, 'b) core_arguments =
  autoPlay :: bool
  getMaximumSafePosition :: "'m manifest_metadata_scheme \<Rightarrow> real"
  getBufferedDataPerMediaBuffer :: "'ms option \<Rightarrow> 'td option \<Rightarrow> 'b"

text \<open>
  The world of one derived core observer: the mutable objects that the closure of
  \<open>transform\<close> captures (the store of position objects, the base observation reference, the
  \<open>speed\<close> and \<open>initialPlayPerformed\<close> references, the manifest, the media source and the
  text displayer, the three signals) and the reference \<open>newRef\<close> it creates, \<open>None\<close> until
  \<open>transform\<close> has run. Three fields only observe: \<open>cw_setups\<close> counts the runs of the body of
  \<open>transform\<close>, \<open>cw_constructions\<close> the calls of \<open>constructCorePlaybackObservation\<close>, and
  \<open>cw_external\<close> lists the opaque callbacks and cleanups that were invoked.
\<close>

record ('r, 'f, 'b, 'm, 'ms, 'td) core_world =
  cw_positions :: "nat \<Rightarrow> observation_position"
  cw_observationRef :: "(('r, 'f) playback_observation, core_callback, signal_name) shared_reference"
  cw_speed :: "(real, core_callback, signal_name) shared_reference"
  cw_initialPlayPerformed :: "(bool, core_callback, signal_name) shared_reference"
  cw_manifest :: "'m manifest_metadata_scheme"
  cw_mediaSource :: "'ms option"
  cw_textDisplayer :: "'td option"
  cw_signals :: "signal_name \<Rightarrow> core_cleanup cancellation_signal"
  cw_newRef :: "(('r, 'f, 'b) core_playback_observation, nat, signal_name) shared_reference option"
  cw_setups :: nat
  cw_constructions :: nat
  cw_external :: "nat list"

text \<open>
  \<open>constructCorePlaybackObservation()\<close>: the new observation and the world it leaves (the
  store of positions after \<open>updateWantedPositionIfAfterManifest\<close>).
\<close>

definition constructCorePlaybackObservation ::
  "('m, 'ms, 'td, 'b) core_arguments \<Rightarrow> ('r, 'f, 'b, 'm, 'ms, 'td) core_world \<Rightarrow>
   ('r, 'f, 'b) core_playback_observation \<times> ('r, 'f, 'b, 'm, 'ms, 'td) core_world" where
  "constructCorePlaybackObservation args w =
     (let observation = getValue (cw_observationRef w);
          lastSpeed = getValue (cw_speed w);
          w1 = w\<lparr> cw_positions :=
                    updateWantedPositionIfAfterManifest observation (cw_manifest w) (cw_positions w),
                  cw_constructions := Suc (cw_constructions w) \<rparr>
      in (\<lparr> core_maximumPosition = getMaximumSafePosition args (cw_manifest w1),
            core_bufferGap = obs_bufferGap observation,
            core_position = obs_position observation,
            core_buffered =
              getBufferedDataPerMediaBuffer args (cw_mediaSource w1) (cw_textDisplayer w1),
            core_duration = obs_duration observation,
            core_rebuffering = obs_rebuffering observation,
            core_freezing = obs_freezing observation,
            core_paused = \<lparr> paused_last = obs_paused observation,
                            paused_pending =
                              getPendingPaused (cw_initialPlayPerformed w1) (autoPlay args) \<rparr>,
            core_readyState = obs_readyState observation,
            core_speed = lastSpeed \<rparr>, w1))"

text \<open>
  Modelled from the spec: \<open>newRef.setValue(v)\<close> replaces the value of \<open>newRef\<close>, then notifies
  its listeners, the downstream consumers, in registration order.
\<close>

definition newRef_setValue ::
  "('r, 'f, 'b) core_playback_observation \<Rightarrow> ('r, 'f, 'b, 'm, 'ms, 'td) core_world \<Rightarrow>
   ('r, 'f, 'b, 'm, 'ms, 'td) core_world" where
  "newRef_setValue v w =
     (case cw_newRef w of
        None \<Rightarrow> w
      | Some r \<Rightarrow>
          if ref_disposed r then w
          else w\<lparr> cw_newRef := Some (storeValue v r),
                  cw_external := cw_external w @ map fst (ref_listeners r) \<rparr>)"

text \<open>\<open>emitCorePlaybackObservation()\<close>\<close>

definition emitCorePlaybackObservation ::
  "('m, 'ms, 'td, 'b) core_arguments \<Rightarrow> ('r, 'f, 'b, 'm, 'ms, 'td) core_world \<Rightarrow>
   ('r, 'f, 'b, 'm, 'ms, 'td) core_world" where
  "emitCorePlaybackObservation args w =
     (let (v, w1) = constructCorePlaybackObservation args w in newRef_setValue v w1)"

text \<open>The invocation of a listener of the \<open>speed\<close> or of the base observation reference.\<close>

definition run_callback ::
  "('m, 'ms, 'td, 'b) core_arguments \<Rightarrow> core_callback \<Rightarrow> ('r, 'f, 'b, 'm, 'ms, 'td) core_world \<Rightarrow>
   ('r, 'f, 'b, 'm, 'ms, 'td) core_world" where
  "run_callback args cb w =
     (case cb of
        EmitCorePlaybackObservation \<Rightarrow> emitCorePlaybackObservation args w
      | ExternalCallback n \<Rightarrow> w\<lparr> cw_external := cw_external w @ [n] \<rparr>)"


text \<open>Modelled from the spec: \<open>set(value)\<close> on the base observation reference.\<close>

definition observationRef_setValue ::
  "('m, 'ms, 'td, 'b) core_arguments \<Rightarrow> ('r, 'f) playback_observation \<Rightarrow>
   ('r, 'f, 'b, 'm, 'ms, 'td) core_world \<Rightarrow> ('r, 'f, 'b, 'm, 'ms, 'td) core_world" where
  "observationRef_setValue args v w =
     (if ref_disposed (cw_observationRef w) then w
      else
        let w1 = w\<lparr> cw_observationRef := storeValue v (cw_observationRef w) \<rparr>
        in fold (run_callback args) (map fst (ref_listeners (cw_observationRef w1))) w1)"

text \<open>
  Modelled from the spec: \<open>cancel()\<close>. On an already cancelled signal it is a no-op; on the
  first call it marks the signal cancelled, runs all registered cleanups in registration
  order, then clears the list. \<open>canceller\<close> is local to \<open>transform\<close>, so no cleanup that is
  registered on its signal cancels another signal: its cleanups are run by
  \<open>run_canceller_cleanup\<close>, where a \<open>CancelCanceller\<close> would find the canceller already
  cancelled. The cleanups of the two outer signals are run by \<open>run_cleanup\<close>.
\<close>

definition run_canceller_cleanup ::
  "core_cleanup \<Rightarrow> ('r, 'f, 'b, 'm, 'ms, 'td) core_world \<Rightarrow> ('r, 'f, 'b, 'm, 'ms, 'td) core_world" where
  "run_canceller_cleanup c w =
     (case c of
        CancelCanceller \<Rightarrow> w
      | DisposeNewRef \<Rightarrow> w\<lparr> cw_newRef := map_option dispose (cw_newRef w) \<rparr>
      | UnlistenSpeed cb options \<Rightarrow> w\<lparr> cw_speed := removeListener cb options (cw_speed w) \<rparr>
      | UnlistenObservation cb options \<Rightarrow>
          w\<lparr> cw_observationRef := removeListener cb options (cw_observationRef w) \<rparr>
      | ExternalCleanup n \<Rightarrow> w\<lparr> cw_external := cw_external w @ [n] \<rparr>)"

text \<open>Modelled from the spec: \<open>cancel()\<close> of the canceller that \<open>transform\<close> creates.\<close>

definition cancel_canceller ::
  "('r, 'f, 'b, 'm, 'ms, 'td) core_world \<Rightarrow> ('r, 'f, 'b, 'm, 'ms, 'td) core_world" where
  "cancel_canceller w =
     (let s = cw_signals w CancellerSignal in
      if isCancelled s then w
      else
        let w1 = w\<lparr> cw_signals := (cw_signals w)(CancellerSignal := s\<lparr> sig_cancelled := True \<rparr>) \<rparr>;
            w2 = fold run_canceller_cleanup (sig_cleanups s) w1
        in w2\<lparr> cw_signals :=
                 (cw_signals w2)(CancellerSignal :=
                    (cw_signals w2 CancellerSignal)\<lparr> sig_cleanups := [] \<rparr>) \<rparr>)"



text \<open>
  Modelled from the spec: \<open>register(cleanup)\<close> on \<open>canceller.signal\<close>. If the signal is
  already cancelled the cleanup is invoked at once instead of being stored.
\<close>

definition canceller_register ::
  "core_cleanup \<Rightarrow> ('r, 'f, 'b, 'm, 'ms, 'td) core_world \<Rightarrow> ('r, 'f, 'b, 'm, 'ms, 'td) core_world" where
  "canceller_register c w =
     (if isCancelled (cw_signals w CancellerSignal) then run_canceller_cleanup c w
      else w\<lparr> cw_signals :=
               (cw_signals w)(CancellerSignal := addCleanup c (cw_signals w CancellerSignal)) \<rparr>)"

text \<open>
  Modelled from the spec: \<open>canceller.linkToSignal(parent)\<close> registers on \<open>parent\<close> a cleanup
  that cancels the canceller (at once if \<open>parent\<close> is already cancelled).
\<close>

definition linkToSignal ::
  "signal_name \<Rightarrow> ('r, 'f, 'b, 'm, 'ms, 'td) core_world \<Rightarrow> ('r, 'f, 'b, 'm, 'ms, 'td) core_world" where
  "linkToSignal parent w =
     (if isCancelled (cw_signals w parent) then cancel_canceller w
      else w\<lparr> cw_signals := (cw_signals w)(parent := addCleanup CancelCanceller (cw_signals w parent)) \<rparr>)"

text \<open>
  Modelled from the spec: \<open>speed.onUpdate(cb, options)\<close> and \<open>observationRef.onUpdate(cb,
  options)\<close> with \<open>canceller.signal\<close> as \<open>clearSignal\<close>, the only form the builder uses. If the
  signal is already cancelled this is a no-op; otherwise the callback is registered, invoked
  once if \<open>emitCurrentValue\<close> is true, and the cleanup that unregisters it is registered on
  the signal.
\<close>

definition speed_onUpdate ::
  "('m, 'ms, 'td, 'b) core_arguments \<Rightarrow> core_callback \<Rightarrow> bool option \<Rightarrow>
   ('r, 'f, 'b, 'm, 'ms, 'td) core_world \<Rightarrow> ('r, 'f, 'b, 'm, 'ms, 'td) core_world" where
  "speed_onUpdate args cb emitCurrent w =
     (let options = \<lparr> clearSignal = Some CancellerSignal, emitCurrentValue = emitCurrent \<rparr> in
      if isCancelled (cw_signals w CancellerSignal) then w
      else
        let w1 = w\<lparr> cw_speed := addListener cb options (cw_speed w) \<rparr>;
            w2 = (if emitCurrent = Some True then run_callback args cb w1 else w1)
        in canceller_register (UnlistenSpeed cb options) w2)"

text \<open>
  Modelled from the spec: \<open>observationRef.onUpdate(cb, options)\<close> with \<open>canceller.signal\<close>
  as \<open>clearSignal\<close>.
\<close>

definition observationRef_onUpdate ::
  "('m, 'ms, 'td, 'b) core_arguments \<Rightarrow> core_callback \<Rightarrow> bool option \<Rightarrow>
   ('r, 'f, 'b, 'm, 'ms, 'td) core_world \<Rightarrow> ('r, 'f, 'b, 'm, 'ms, 'td) core_world" where
  "observationRef_onUpdate args cb emitCurrent w =
     (let options = \<lparr> clearSignal = Some CancellerSignal, emitCurrentValue = emitCurrent \<rparr> in
      if isCancelled (cw_signals w CancellerSignal) then w
      else
        let w1 = w\<lparr> cw_observationRef := addListener cb options (cw_observationRef w) \<rparr>;
            w2 = (if emitCurrent = Some True then run_callback args cb w1 else w1)
        in canceller_register (UnlistenObservation cb options) w2)"

text \<open>
  The body of \<open>transform\<close>, the function that \<open>createCorePlaybackObserver\<close> hands to
  \<open>deriveReadOnlyObserver\<close>: a new \<open>TaskCanceller\<close> linked to the two signals; \<open>newRef\<close>, created
  with the first observation and owned by \<open>canceller.signal\<close>; the two subscriptions.
\<close>

definition transform ::
  "('m, 'ms, 'td, 'b) core_arguments \<Rightarrow> ('r, 'f, 'b, 'm, 'ms, 'td) core_world \<Rightarrow>
   ('r, 'f, 'b, 'm, 'ms, 'td) core_world" where
  "transform args w =
     (let w0 = w\<lparr> cw_signals :=
                    (cw_signals w)(CancellerSignal := \<lparr> sig_cancelled = False, sig_cleanups = [] \<rparr>),
                  cw_setups := Suc (cw_setups w) \<rparr>;
          w1 = linkToSignal ParentObserverCancelSignal w0;
          w2 = linkToSignal FnCancelSignal w1;
          (v, w3) = constructCorePlaybackObservation args w2;
          w4 = canceller_register DisposeNewRef
                 (w3\<lparr> cw_newRef :=
                        Some \<lparr> ref_value = v, ref_listeners = [], ref_disposed = False \<rparr> \<rparr>);
          w5 = speed_onUpdate args EmitCorePlaybackObservation (Some False) w4;
          w6 = observationRef_onUpdate args EmitCorePlaybackObservation (Some False) w5
      in w6)"



subsection \<open>The wanted-position correction in the words of the specification\<close>

text \<open>
  The specification applies the correction when "the manifest is not dynamic, or its last
  period is known, and the last period has a known end, and the current wanted position is
  within the last second of that period, and the locally buffered ranges do not yet cover up
  to (duration - 1 second)". The last second of a period is read as the positions of the
  period from one second before its end up to its end.
\<close>

definition spec_within_last_second :: "period \<Rightarrow> real \<Rightarrow> bool" where
  "spec_within_last_second p x =
     (case period_end p of
        None \<Rightarrow> False
      | Some e \<Rightarrow> period_start p \<le> x \<and> e - 1 \<le> x \<and> x \<le> e)"

definition spec_wanted_position_correction ::
  "('r, 'f) playback_observation \<Rightarrow> 'm manifest_metadata_scheme \<Rightarrow>
   (nat \<Rightarrow> observation_position) \<Rightarrow> (nat \<Rightarrow> observation_position)" where
  "spec_wanted_position_correction observation manifest positions =
     (case lastPeriodOf manifest of
        None \<Rightarrow> positions
      | Some lastPeriod \<Rightarrow>
          (case period_end lastPeriod of
             None \<Rightarrow> positions
           | Some lastPeriodEnd \<Rightarrow>
               if (\<not> isDynamic manifest \<or> isLastPeriodKnown manifest) \<and>
                  spec_within_last_second lastPeriod
                    (getWanted (positions (obs_position observation))) \<and>
                  (obs_buffered observation = [] \<or>
                   snd (last (obs_buffered observation)) < obs_duration observation - 1)
               then positions(obs_position observation :=
                      forceWantedPosition (lastPeriodEnd - 1)
                        (positions (obs_position observation)))
               else positions))"

subsection \<open>States of the derived observer\<close>

text \<open>
  \<open>same_sources w w'\<close>: the two worlds agree on everything that
  \<open>constructCorePlaybackObservation\<close> reads and on the signals. \<open>subscribed w\<close>: the state
  that \<open>transform\<close> sets up, for as long as it lasts: the canceller is not cancelled, \<open>newRef\<close>
  (which only the canceller's cleanup disposes) exists and is not disposed, and on each of
  the two source references, unless that reference is itself disposed,
  \<open>emitCorePlaybackObservation\<close> is registered once. \<open>accepts u w\<close>: the source reference
  that the update \<open>u\<close> is made on is not disposed (a disposed reference accepts no update).
\<close>

definition same_sources ::
  "('r, 'f, 'b, 'm, 'ms, 'td) core_world \<Rightarrow> ('r, 'f, 'b, 'm, 'ms, 'td) core_world \<Rightarrow> bool" where
  "same_sources w w' =
     (cw_observationRef w' = cw_observationRef w \<and> cw_speed w' = cw_speed w \<and>
      cw_initialPlayPerformed w' = cw_initialPlayPerformed w \<and> cw_manifest w' = cw_manifest w \<and>
      cw_mediaSource w' = cw_mediaSource w \<and> cw_textDisplayer w' = cw_textDisplayer w \<and>
      cw_signals w' = cw_signals w \<and> cw_setups w' = cw_setups w)"



subsection \<open>Concrete inputs\<close>

text \<open>
  A worker world with one reference of value \<open>7\<close> at every address and no listener, where
  the signal at address \<open>1\<close> is cancelled and no other is.
\<close>

definition example_worker_world :: "nat worker_world" where
  "example_worker_world =
     \<lparr> ww_refs = (\<lambda>a. \<lparr> ref_value = 7, ref_listeners = [], ref_disposed = False \<rparr>),
       ww_signals = (\<lambda>a. \<lparr> sig_cancelled = (a = 1), sig_cleanups = [] \<rparr>),
       ww_outbox = [], ww_calls = [] \<rparr>"

text \<open>
  The inputs of the specification's property P6: a manifest that is not dynamic, with the
  single period \<open>[0, 100)\<close>; a base observation of duration \<open>100\<close> with given buffered ranges,
  whose position object is at address \<open>0\<close>; a store whose position object at address \<open>0\<close> has
  a given wanted position, and every other position object the wanted position \<open>99.5\<close>.
\<close>

definition p6_manifest :: manifest_metadata where
  "p6_manifest =
     \<lparr> isDynamic = False, isLastPeriodKnown = False,
       periods = [\<lparr> period_start = 0, period_end = Some 100 \<rparr>] \<rparr>"

definition p6_observation :: "time_ranges \<Rightarrow> (unit, unit) playback_observation" where
  "p6_observation buffered =
     \<lparr> obs_position = 0, obs_bufferGap = None, obs_buffered = buffered, obs_duration = 100,
       obs_rebuffering = (), obs_freezing = (), obs_paused = False, obs_readyState = 4 \<rparr>"

definition p6_positions :: "real \<Rightarrow> nat \<Rightarrow> observation_position" where
  "p6_positions wanted =
     (\<lambda>a. \<lparr> pos_polled = 98, pos_wanted = Some 99.5 \<rparr>)
       (0 := \<lparr> pos_polled = 98, pos_wanted = Some wanted \<rparr>)"

text \<open>
  Arguments with \<open>autoPlay = false\<close>, where the maximum safe position of a manifest is the
  end of its last period. A world before \<open>transform\<close> has run, with the P6 inputs (buffered
  ranges \<open>[0, 90)\<close>, wanted position \<open>99.5\<close>), a speed of \<open>1\<close>, the initial play not performed
  and no signal cancelled. \<open>example_published_world\<close> is the world that \<open>transform\<close> leaves
  when the base observation has the buffered ranges \<open>[0, 99.5)\<close> instead.
\<close>

definition example_arguments :: "(unit, unit, unit, unit) core_arguments" where
  "example_arguments =
     \<lparr> autoPlay = False,
       getMaximumSafePosition =
         (\<lambda>m. case lastPeriodOf m of
                 None \<Rightarrow> 0
               | Some p \<Rightarrow> (case period_end p of None \<Rightarrow> period_start p | Some e \<Rightarrow> e)),
       getBufferedDataPerMediaBuffer = (\<lambda>ms td. ()) \<rparr>"

definition example_core_world :: "(unit, unit, unit, unit, unit, unit) core_world" where
  "example_core_world =
     \<lparr> cw_positions = p6_positions 99.5,
       cw_observationRef =
         \<lparr> ref_value = p6_observation [(0, 90)], ref_listeners = [], ref_disposed = False \<rparr>,
       cw_speed = \<lparr> ref_value = 1, ref_listeners = [], ref_disposed = False \<rparr>,
       cw_initialPlayPerformed = \<lparr> ref_value = False, ref_listeners = [], ref_disposed = False \<rparr>,
       cw_manifest = p6_manifest,
       cw_mediaSource = None,
       cw_textDisplayer = None,
       cw_signals = (\<lambda>n. \<lparr> sig_cancelled = False, sig_cleanups = [] \<rparr>),
       cw_newRef = None,
       cw_setups = 0,
       cw_constructions = 0,
       cw_external = [] \<rparr>"

definition example_published_world :: "(unit, unit, unit, unit, unit, unit) core_world" where
  "example_published_world =
     transform example_arguments
       (example_core_world
          \<lparr> cw_observationRef :=
              \<lparr> ref_value = p6_observation [(0, 99.5)], ref_listeners = [],
                ref_disposed = False \<rparr> \<rparr>)"

section \<open>Theorems\<close>

subsection \<open>ISOBMFF chunk timing\<close>










subsection \<open>The worker's playback observer\<close>

lemma onObservationMessage_matching:
  assumes "om_contentId msg = wpo_contentId this"
    and "\<not> ref_disposed (ww_refs w (wpo_src this))"
  shows "getValue (ww_refs (onObservationMessage this msg w) (wpo_src this)) = om_value msg"
  using assms
  by (simp add: onObservationMessage_def setValue_def storeValue_def getValue_def Let_def)

text \<open>
  Claim C3. An inbound message whose \<open>contentId\<close> is not the one of the active content, the
  one the observer was built for, is discarded: the world it leaves is the world it found,
  so the value of the backing reference is unchanged, no listener is notified and nothing is
  sent.
\<close>

theorem onObservationMessage_stale_content:
  "om_contentId msg \<noteq> wpo_contentId this \<longrightarrow> onObservationMessage this msg w = w"
  by (simp add: onObservationMessage_def)

text \<open>
  Property P7: an observer configured for the content \<open>A\<close> receives a message tagged \<open>B\<close>;
  the value of its reference stays \<open>7\<close>.
\<close>

theorem onObservationMessage_stale_content_witness:
  "getValue (ww_refs (onObservationMessage (WorkerPlaybackObserver 0 ''A'' 0)
       \<lparr> om_contentId = ''B'', om_value = 8 \<rparr> example_worker_world) 0) = 7"
  using onObservationMessage_stale_content [of "\<lparr> om_contentId = ''B'', om_value = 8 \<rparr>"
      "WorkerPlaybackObserver 0 ''A'' 0" example_worker_world]
  by (simp add: WorkerPlaybackObserver_def example_worker_world_def getValue_def)

text \<open>
  Claim C5. Each of the direct clock queries \<open>getCurrentTime()\<close>, \<open>getReadyState()\<close>,
  \<open>getIsPaused()\<close> and \<open>getPlaybackRate()\<close> returns \<open>undefined\<close> and leaves the world as it
  found it.
\<close>

theorem clock_queries_undefined:
  "getCurrentTime this w = (None, w) \<and> getReadyState this w = (None, w) \<and>
   getIsPaused this w = (None, w) \<and> getPlaybackRate this w = (None, w)"
  by (simp add: getCurrentTime_def getReadyState_def getIsPaused_def getPlaybackRate_def)

theorem clock_queries_undefined_witness:
  "getCurrentTime (WorkerPlaybackObserver 0 ''A'' 0) example_worker_world =
     (None, example_worker_world) \<and>
   getReadyState (WorkerPlaybackObserver 0 ''A'' 0) example_worker_world =
     (None, example_worker_world) \<and>
   getIsPaused (WorkerPlaybackObserver 0 ''A'' 0) example_worker_world =
     (None, example_worker_world) \<and>
   getPlaybackRate (WorkerPlaybackObserver 0 ''A'' 0) example_worker_world =
     (None, example_worker_world)"
  using clock_queries_undefined [of "WorkerPlaybackObserver 0 ''A'' 0" example_worker_world]
  by simp

text \<open>
  Claim C6. \<open>setPlaybackRate(rate)\<close> hands exactly one message to \<open>sendMessage\<close>, of type
  \<open>UpdatePlaybackRate\<close>, with the observer's \<open>contentId\<close> and the rate as value; it returns
  with every reference, every signal and the record of callback invocations unchanged.
\<close>

theorem setPlaybackRate_forwards:
  "setPlaybackRate this rate w =
     w\<lparr> ww_outbox := ww_outbox w @
          [\<lparr> msg_type = UpdatePlaybackRate, msg_contentId = wpo_contentId this,
             msg_value = rate \<rparr>] \<rparr> \<and>
   ww_refs (setPlaybackRate this rate w) = ww_refs w \<and>
   ww_signals (setPlaybackRate this rate w) = ww_signals w \<and>
   ww_calls (setPlaybackRate this rate w) = ww_calls w"
  by (simp add: setPlaybackRate_def sendMessage_def)

theorem setPlaybackRate_forwards_witness:
  "ww_outbox (setPlaybackRate (WorkerPlaybackObserver 0 ''A'' 0) 2 example_worker_world) =
     [\<lparr> msg_type = UpdatePlaybackRate, msg_contentId = ''A'', msg_value = 2 \<rparr>] \<and>
   getValue (ww_refs (setPlaybackRate (WorkerPlaybackObserver 0 ''A'' 0) 2 example_worker_world) 0) = 7"
  using setPlaybackRate_forwards [of "WorkerPlaybackObserver 0 ''A'' 0" 2 example_worker_world]
  by (simp add: WorkerPlaybackObserver_def example_worker_world_def getValue_def)

lemma listen_branches:
  "listen this cb options w =
     (if isCancelled (ww_signals w (wpo_cancelSignal this)) \<or>
         (\<exists>opts s. options = Some opts \<and> lo_clearSignal opts = Some s \<and>
                   isCancelled (ww_signals w s))
      then w
      else onUpdate (wpo_src this) cb
             \<lparr> clearSignal = Option.bind options lo_clearSignal,
               emitCurrentValue = Option.bind options includeLastObservation \<rparr> w)"
  by (auto simp add: listen_def split: option.splits)

lemma listen_registered:
  assumes "\<not> isCancelled (ww_signals w (wpo_cancelSignal this))"
    and "\<not> (\<exists>opts s. options = Some opts \<and> lo_clearSignal opts = Some s \<and>
                     isCancelled (ww_signals w s))"
    and "\<not> ref_disposed (ww_refs w (wpo_src this))"
  shows "ref_listeners (ww_refs (listen this cb options w) (wpo_src this)) =
         ref_listeners (ww_refs w (wpo_src this)) @
           [(cb, \<lparr> clearSignal = Option.bind options lo_clearSignal,
                   emitCurrentValue = Option.bind options includeLastObservation \<rparr>)]"
    and "ww_calls (listen this cb options w) =
         ww_calls w @ (if Option.bind options includeLastObservation = Some True
                       then [(cb, getValue (ww_refs w (wpo_src this)))] else [])"
  using assms
  by (auto simp add: listen_def onUpdate_def addListener_def Let_def getValue_def
      split: option.splits)

text \<open>
  Claim C7. \<open>listen(cb, options)\<close> is a no-op when the observer's own signal is cancelled, or
  when \<open>options.clearSignal\<close> is given and cancelled. Otherwise it is the call of \<open>onUpdate\<close> on
  the backing reference with \<open>clearSignal: options?.clearSignal\<close> and \<open>emitCurrentValue:
  options?.includeLastObservation\<close>; on a reference that is not disposed, that call registers
  the callback last, with these options, and invokes it once with the current value exactly
  when \<open>includeLastObservation\<close> is true.
\<close>

theorem listen_registration:
  "listen this cb options w =
     (if isCancelled (ww_signals w (wpo_cancelSignal this)) \<or>
         (\<exists>opts s. options = Some opts \<and> lo_clearSignal opts = Some s \<and>
                   isCancelled (ww_signals w s))
      then w
      else onUpdate (wpo_src this) cb
             \<lparr> clearSignal = Option.bind options lo_clearSignal,
               emitCurrentValue = Option.bind options includeLastObservation \<rparr> w) \<and>
   (\<not> isCancelled (ww_signals w (wpo_cancelSignal this)) \<and>
    \<not> (\<exists>opts s. options = Some opts \<and> lo_clearSignal opts = Some s \<and>
                isCancelled (ww_signals w s)) \<and>
    \<not> ref_disposed (ww_refs w (wpo_src this)) \<longrightarrow>
      ref_listeners (ww_refs (listen this cb options w) (wpo_src this)) =
        ref_listeners (ww_refs w (wpo_src this)) @
          [(cb, \<lparr> clearSignal = Option.bind options lo_clearSignal,
                  emitCurrentValue = Option.bind options includeLastObservation \<rparr>)] \<and>
      ww_calls (listen this cb options w) =
        ww_calls w @ (if Option.bind options includeLastObservation = Some True
                      then [(cb, getValue (ww_refs w (wpo_src this)))] else []))"
  using listen_branches [of this cb options w] listen_registered [of w this options cb]
  by blast

text \<open>
  Three calls on the example world, where the signal at address \<open>1\<close> is cancelled: with the
  observer's own signal cancelled; with a cancelled \<open>clearSignal\<close>; and with live signals and
  \<open>includeLastObservation: true\<close>.
\<close>

theorem listen_registration_witness:
  "listen (WorkerPlaybackObserver 0 ''A'' 1) 5 None example_worker_world = example_worker_world \<and>
   listen (WorkerPlaybackObserver 0 ''A'' 0) 5
     (Some \<lparr> includeLastObservation = Some True, lo_clearSignal = Some 1 \<rparr>)
     example_worker_world = example_worker_world \<and>
   ref_listeners (ww_refs (listen (WorkerPlaybackObserver 0 ''A'' 0) 5
     (Some \<lparr> includeLastObservation = Some True, lo_clearSignal = Some 2 \<rparr>)
     example_worker_world) 0) =
     [(5, \<lparr> clearSignal = Some 2, emitCurrentValue = Some True \<rparr>)] \<and>
   ww_calls (listen (WorkerPlaybackObserver 0 ''A'' 0) 5
     (Some \<lparr> includeLastObservation = Some True, lo_clearSignal = Some 2 \<rparr>)
     example_worker_world) = [(5, 7)]"
  using listen_registration [of "WorkerPlaybackObserver 0 ''A'' 1" 5 None example_worker_world,
      THEN conjunct1]
    listen_registration [of "WorkerPlaybackObserver 0 ''A'' 0" 5
      "Some \<lparr> includeLastObservation = Some True, lo_clearSignal = Some 1 \<rparr>"
      example_worker_world, THEN conjunct1]
    listen_registration [of "WorkerPlaybackObserver 0 ''A'' 0" 5
      "Some \<lparr> includeLastObservation = Some True, lo_clearSignal = Some 2 \<rparr>"
      example_worker_world, THEN conjunct2]
  by (simp add: WorkerPlaybackObserver_def example_worker_world_def isCancelled_def getValue_def)

subsection \<open>The core playback observer: one construction\<close>

lemma getWanted_forceWantedPosition: "getWanted (forceWantedPosition x p) = x"
  by (simp add: getWanted_def forceWantedPosition_def)

lemma updateWanted_applies:
  assumes "\<not> isDynamic m \<or> isLastPeriodKnown m" and "periods m \<noteq> []"
    and "period_end (last (periods m)) = Some e"
    and "period_start (last (periods m)) \<le> getWanted (ps (obs_position obs))"
    and "e - 1 \<le> getWanted (ps (obs_position obs))"
    and "obs_buffered obs = [] \<or> snd (last (obs_buffered obs)) < obs_duration obs - 1"
  shows "updateWantedPositionIfAfterManifest obs m ps =
         ps(obs_position obs := forceWantedPosition (e - 1) (ps (obs_position obs)))"
  using assms
  by (auto simp add: updateWantedPositionIfAfterManifest_def lastPeriodOf_def Let_def
      last_conv_nth)

lemma updateWanted_unchanged:
  assumes "\<not> ((\<not> isDynamic m \<or> isLastPeriodKnown m) \<and> periods m \<noteq> [] \<and>
     (\<exists>e. period_end (last (periods m)) = Some e \<and>
          period_start (last (periods m)) \<le> getWanted (ps (obs_position obs)) \<and>
          e - 1 \<le> getWanted (ps (obs_position obs))) \<and>
     (obs_buffered obs = [] \<or> snd (last (obs_buffered obs)) < obs_duration obs - 1))"
  shows "updateWantedPositionIfAfterManifest obs m ps = ps"
  using assms
  by (auto simp add: updateWantedPositionIfAfterManifest_def lastPeriodOf_def Let_def
      last_conv_nth split: option.splits)

lemma updateWanted_pointwise:
  "updateWantedPositionIfAfterManifest obs m ps a =
     (if a = obs_position obs
      then (ps a)\<lparr> pos_wanted := pos_wanted (updateWantedPositionIfAfterManifest obs m ps a) \<rparr>
      else ps a)"
  by (simp add: updateWantedPositionIfAfterManifest_def forceWantedPosition_def Let_def
      split: option.splits)

lemma updateWanted_polled:
  "pos_polled (updateWantedPositionIfAfterManifest obs m ps a) = pos_polled (ps a)"
  by (simp add: updateWantedPositionIfAfterManifest_def forceWantedPosition_def Let_def
      split: option.splits)

lemma construct_world:
  "snd (constructCorePlaybackObservation args w) =
     w\<lparr> cw_positions :=
          updateWantedPositionIfAfterManifest (getValue (cw_observationRef w)) (cw_manifest w)
            (cw_positions w),
        cw_constructions := Suc (cw_constructions w) \<rparr>"
  by (simp add: constructCorePlaybackObservation_def Let_def)

lemma construct_position:
  "core_position (fst (constructCorePlaybackObservation args w)) =
     obs_position (getValue (cw_observationRef w))"
  by (simp add: constructCorePlaybackObservation_def Let_def)

lemma construct_maximumPosition:
  "core_maximumPosition (fst (constructCorePlaybackObservation args w)) =
     getMaximumSafePosition args (cw_manifest w)"
  by (simp add: constructCorePlaybackObservation_def Let_def)


lemma emit_effect:
  assumes "cw_newRef w = Some r" and "\<not> ref_disposed r"
  shows "same_sources w (emitCorePlaybackObservation args w)"
    and "cw_newRef (emitCorePlaybackObservation args w) =
           Some (r\<lparr> ref_value := fst (constructCorePlaybackObservation args w) \<rparr>)"
    and "cw_constructions (emitCorePlaybackObservation args w) = Suc (cw_constructions w)"
    and "cw_positions (emitCorePlaybackObservation args w) =
           cw_positions (snd (constructCorePlaybackObservation args w))"
  using assms
  by (simp_all add: emitCorePlaybackObservation_def newRef_setValue_def storeValue_def
      same_sources_def constructCorePlaybackObservation_def Let_def)

text \<open>
  Claim C1, as the code has it. The correction is applied exactly when the manifest is not
  dynamic or its last period is known, the last period exists with a known end \<open>e\<close>, the
  wanted position is at or after the start of that period and at or after \<open>e - 1\<close> (however
  far after: a wanted position beyond the end of the period is corrected too), and the
  buffered ranges are empty or their last range ends before \<open>duration - 1\<close>. The wanted
  position of the observation's position object is then forced to \<open>e - 1\<close>; otherwise the
  store of positions is left as it was. The builder applies it to the base observation it
  reads, and the position of its output is that same position object.
\<close>

theorem wanted_position_correction:
  "((\<not> isDynamic m \<or> isLastPeriodKnown m) \<and> periods m \<noteq> [] \<and>
    period_end (last (periods m)) = Some e \<and>
    period_start (last (periods m)) \<le> getWanted (ps (obs_position obs)) \<and>
    e - 1 \<le> getWanted (ps (obs_position obs)) \<and>
    (obs_buffered obs = [] \<or> snd (last (obs_buffered obs)) < obs_duration obs - 1) \<longrightarrow>
      updateWantedPositionIfAfterManifest obs m ps =
        ps(obs_position obs := forceWantedPosition (e - 1) (ps (obs_position obs))) \<and>
      getWanted (updateWantedPositionIfAfterManifest obs m ps (obs_position obs)) = e - 1) \<and>
   (\<not> ((\<not> isDynamic m \<or> isLastPeriodKnown m) \<and> periods m \<noteq> [] \<and>
       (\<exists>e. period_end (last (periods m)) = Some e \<and>
            period_start (last (periods m)) \<le> getWanted (ps (obs_position obs)) \<and>
            e - 1 \<le> getWanted (ps (obs_position obs))) \<and>
       (obs_buffered obs = [] \<or> snd (last (obs_buffered obs)) < obs_duration obs - 1)) \<longrightarrow>
      updateWantedPositionIfAfterManifest obs m ps = ps) \<and>
   cw_positions (snd (constructCorePlaybackObservation args w)) =
     updateWantedPositionIfAfterManifest (getValue (cw_observationRef w)) (cw_manifest w)
       (cw_positions w) \<and>
   core_position (fst (constructCorePlaybackObservation args w)) =
     obs_position (getValue (cw_observationRef w))"
proof (intro conjI impI)
  assume a: "(\<not> isDynamic m \<or> isLastPeriodKnown m) \<and> periods m \<noteq> [] \<and>
    period_end (last (periods m)) = Some e \<and>
    period_start (last (periods m)) \<le> getWanted (ps (obs_position obs)) \<and>
    e - 1 \<le> getWanted (ps (obs_position obs)) \<and>
    (obs_buffered obs = [] \<or> snd (last (obs_buffered obs)) < obs_duration obs - 1)"
  then show u: "updateWantedPositionIfAfterManifest obs m ps =
        ps(obs_position obs := forceWantedPosition (e - 1) (ps (obs_position obs)))"
    by (intro updateWanted_applies) simp_all
  show "getWanted (updateWantedPositionIfAfterManifest obs m ps (obs_position obs)) = e - 1"
    by (simp add: u getWanted_forceWantedPosition)
next
  assume "\<not> ((\<not> isDynamic m \<or> isLastPeriodKnown m) \<and> periods m \<noteq> [] \<and>
       (\<exists>e. period_end (last (periods m)) = Some e \<and>
            period_start (last (periods m)) \<le> getWanted (ps (obs_position obs)) \<and>
            e - 1 \<le> getWanted (ps (obs_position obs))) \<and>
       (obs_buffered obs = [] \<or> snd (last (obs_buffered obs)) < obs_duration obs - 1))"
  then show "updateWantedPositionIfAfterManifest obs m ps = ps"
    by (rule updateWanted_unchanged)
next
  show "cw_positions (snd (constructCorePlaybackObservation args w)) =
     updateWantedPositionIfAfterManifest (getValue (cw_observationRef w)) (cw_manifest w)
       (cw_positions w)"
    by (simp add: construct_world)
  show "core_position (fst (constructCorePlaybackObservation args w)) =
     obs_position (getValue (cw_observationRef w))"
    by (rule construct_position)
qed

text \<open>
  Property P6: with the manifest \<open>[0, 100)\<close>, wanted position \<open>99.5\<close>, duration \<open>100\<close> and
  buffered ranges \<open>[0, 90)\<close>, the position of the builder's output is corrected to \<open>99\<close>; with
  buffered ranges \<open>[0, 99.5)\<close> the wanted position stays \<open>99.5\<close>.
\<close>

theorem wanted_position_correction_witness:
  "getWanted (cw_positions (snd (constructCorePlaybackObservation example_arguments
       example_core_world))
     (core_position (fst (constructCorePlaybackObservation example_arguments
       example_core_world)))) = 99 \<and>
   getWanted (updateWantedPositionIfAfterManifest (p6_observation [(0, 99.5)]) p6_manifest
     (p6_positions 99.5) 0) = 99.5"
proof -
  have a: "getWanted (updateWantedPositionIfAfterManifest (p6_observation [(0, 90)]) p6_manifest
     (p6_positions 99.5) (obs_position (p6_observation [(0, 90)]))) = 100 - 1"
    using wanted_position_correction [of p6_manifest 100 "p6_positions 99.5"
        "p6_observation [(0, 90)]" example_arguments example_core_world]
    by (simp add: p6_manifest_def p6_observation_def p6_positions_def getWanted_def
        forceWantedPosition_def)
  have b: "updateWantedPositionIfAfterManifest (p6_observation [(0, 99.5)]) p6_manifest
     (p6_positions 99.5) = p6_positions 99.5"
    using wanted_position_correction [of p6_manifest 100 "p6_positions 99.5"
        "p6_observation [(0, 99.5)]" example_arguments example_core_world]
    by (simp add: p6_manifest_def p6_observation_def p6_positions_def getWanted_def)
  have c: "cw_positions (snd (constructCorePlaybackObservation example_arguments
       example_core_world)) =
     updateWantedPositionIfAfterManifest (p6_observation [(0, 90)]) p6_manifest (p6_positions 99.5)"
    and d: "core_position (fst (constructCorePlaybackObservation example_arguments
       example_core_world)) = obs_position (p6_observation [(0, 90)])"
    using wanted_position_correction [of p6_manifest 100 "p6_positions 99.5"
        "p6_observation [(0, 90)]" example_arguments example_core_world]
    by (simp_all add: example_core_world_def getValue_def)
  show ?thesis
    using a b c d by (simp add: p6_positions_def getWanted_def)
qed

text \<open>
  The claim as it is written, with the wanted position "within the last second" of the
  period, fails for a wanted position past the end of the period: at \<open>150\<close>, with the period
  \<open>[0, 100)\<close>, the code forces the wanted position to \<open>99\<close>, where the specification's
  condition leaves it at \<open>150\<close>.
\<close>

theorem wanted_position_past_end_counterexample:
  "getWanted (updateWantedPositionIfAfterManifest (p6_observation [(0, 90)]) p6_manifest
     (p6_positions 150) 0) = 99 \<and>
   getWanted (spec_wanted_position_correction (p6_observation [(0, 90)]) p6_manifest
     (p6_positions 150) 0) = 150"
  by (simp add: updateWantedPositionIfAfterManifest_def spec_wanted_position_correction_def
      spec_within_last_second_def lastPeriodOf_def Let_def p6_observation_def p6_manifest_def
      p6_positions_def getWanted_def forceWantedPosition_def)

text \<open>
  Claim C4. \<open>getPendingPaused\<close> answers \<open>undefined\<close> when the current value of
  \<open>initialPlayPerformed\<close> is true and \<open>!autoPlay\<close> otherwise, and that is the \<open>paused.pending\<close>
  of every observation the builder constructs.
\<close>

theorem pending_paused:
  "getPendingPaused initialPlayPerformed a =
     (if getValue initialPlayPerformed then None else Some (\<not> a)) \<and>
   paused_pending (core_paused (fst (constructCorePlaybackObservation args w))) =
     (if getValue (cw_initialPlayPerformed w) then None else Some (\<not> autoPlay args))"
  by (simp add: getPendingPaused_def constructCorePlaybackObservation_def Let_def)

text \<open>
  Property P8: before the initial play, with \<open>autoPlay = false\<close>, \<open>paused.pending\<close> is \<open>true\<close>;
  after the initial play it is \<open>undefined\<close> with \<open>autoPlay = false\<close> and with \<open>autoPlay = true\<close>.
\<close>

theorem pending_paused_witness:
  "paused_pending (core_paused (fst (constructCorePlaybackObservation example_arguments
     example_core_world))) = Some True \<and>
   paused_pending (core_paused (fst (constructCorePlaybackObservation example_arguments
     (example_core_world\<lparr> cw_initialPlayPerformed :=
        \<lparr> ref_value = True, ref_listeners = [], ref_disposed = False \<rparr> \<rparr>)))) = None \<and>
   paused_pending (core_paused (fst (constructCorePlaybackObservation
     (example_arguments\<lparr> autoPlay := True \<rparr>)
     (example_core_world\<lparr> cw_initialPlayPerformed :=
        \<lparr> ref_value = True, ref_listeners = [], ref_disposed = False \<rparr> \<rparr>)))) = None"
  using pending_paused [of "cw_initialPlayPerformed example_core_world" False
      example_arguments example_core_world]
    pending_paused [of "cw_initialPlayPerformed example_core_world" False example_arguments
      "example_core_world\<lparr> cw_initialPlayPerformed :=
        \<lparr> ref_value = True, ref_listeners = [], ref_disposed = False \<rparr> \<rparr>"]
    pending_paused [of "cw_initialPlayPerformed example_core_world" False
      "example_arguments\<lparr> autoPlay := True \<rparr>"
      "example_core_world\<lparr> cw_initialPlayPerformed :=
        \<lparr> ref_value = True, ref_listeners = [], ref_disposed = False \<rparr> \<rparr>"]
  by (simp add: example_core_world_def example_arguments_def getValue_def)

text \<open>
  Claim C9. The \<open>maximumPosition\<close> of every observation the builder constructs is
  \<open>getMaximumSafePosition\<close> of the manifest as it is in the world of that construction;
  a rebuild after the manifest has changed publishes the value for the changed manifest.
\<close>

theorem maximumPosition_recomputed:
  "core_maximumPosition (fst (constructCorePlaybackObservation args w)) =
     getMaximumSafePosition args (cw_manifest w) \<and>
   (cw_newRef w = Some r \<and> \<not> ref_disposed r \<longrightarrow>
      map_option (core_maximumPosition \<circ> getValue)
        (cw_newRef (emitCorePlaybackObservation args (w\<lparr> cw_manifest := m \<rparr>))) =
      Some (getMaximumSafePosition args m))"
proof (intro conjI impI)
  show "core_maximumPosition (fst (constructCorePlaybackObservation args w)) =
     getMaximumSafePosition args (cw_manifest w)"
    by (rule construct_maximumPosition)
next
  assume "cw_newRef w = Some r \<and> \<not> ref_disposed r"
  then have "cw_newRef (emitCorePlaybackObservation args (w\<lparr> cw_manifest := m \<rparr>)) =
      Some (r\<lparr> ref_value :=
        fst (constructCorePlaybackObservation args (w\<lparr> cw_manifest := m \<rparr>)) \<rparr>)"
    by (intro emit_effect(2)) simp_all
  then show "map_option (core_maximumPosition \<circ> getValue)
        (cw_newRef (emitCorePlaybackObservation args (w\<lparr> cw_manifest := m \<rparr>))) =
      Some (getMaximumSafePosition args m)"
    by (simp add: getValue_def construct_maximumPosition)
qed

text \<open>
  Two rebuilds in the published example world, where the maximum safe position is the end
  of the last period: the first with the manifest \<open>[0, 100)\<close>, the second after the period
  has been extended to \<open>[0, 200)\<close>.
\<close>

theorem maximumPosition_recomputed_witness:
  "map_option (core_maximumPosition \<circ> getValue)
     (cw_newRef (emitCorePlaybackObservation example_arguments
        (example_published_world\<lparr> cw_manifest := p6_manifest \<rparr>))) = Some 100 \<and>
   map_option (core_maximumPosition \<circ> getValue)
     (cw_newRef (emitCorePlaybackObservation example_arguments
        (emitCorePlaybackObservation example_arguments
           (example_published_world\<lparr> cw_manifest := p6_manifest \<rparr>)
         \<lparr> cw_manifest :=
             p6_manifest\<lparr> periods := [\<lparr> period_start = 0, period_end = Some 200 \<rparr>] \<rparr> \<rparr>))) =
     Some 200"
proof -
  obtain r where r: "cw_newRef example_published_world = Some r" "\<not> ref_disposed r"
    by (simp add: example_published_world_def example_core_world_def transform_def
        linkToSignal_def isCancelled_def addCleanup_def constructCorePlaybackObservation_def
        Let_def canceller_register_def speed_onUpdate_def observationRef_onUpdate_def
        addListener_def)
  have a: "map_option (core_maximumPosition \<circ> getValue)
     (cw_newRef (emitCorePlaybackObservation example_arguments
        (example_published_world\<lparr> cw_manifest := p6_manifest \<rparr>))) =
     Some (getMaximumSafePosition example_arguments p6_manifest)"
    using maximumPosition_recomputed [of example_arguments example_published_world r p6_manifest] r
    by simp
  obtain r' where r': "cw_newRef (emitCorePlaybackObservation example_arguments
        (example_published_world\<lparr> cw_manifest := p6_manifest \<rparr>)) = Some r'" "\<not> ref_disposed r'"
    using emit_effect(2) [of "example_published_world\<lparr> cw_manifest := p6_manifest \<rparr>" r
        example_arguments] r
    by simp
  have b: "map_option (core_maximumPosition \<circ> getValue)
     (cw_newRef (emitCorePlaybackObservation example_arguments
        (emitCorePlaybackObservation example_arguments
           (example_published_world\<lparr> cw_manifest := p6_manifest \<rparr>)
         \<lparr> cw_manifest :=
             p6_manifest\<lparr> periods := [\<lparr> period_start = 0, period_end = Some 200 \<rparr>] \<rparr> \<rparr>))) =
     Some (getMaximumSafePosition example_arguments
       (p6_manifest\<lparr> periods := [\<lparr> period_start = 0, period_end = Some 200 \<rparr>] \<rparr>))"
    using maximumPosition_recomputed [of example_arguments
        "emitCorePlaybackObservation example_arguments
           (example_published_world\<lparr> cw_manifest := p6_manifest \<rparr>)" r'
        "p6_manifest\<lparr> periods := [\<lparr> period_start = 0, period_end = Some 200 \<rparr>] \<rparr>"] r'
    by simp
  show ?thesis
    using a b by (simp add: example_arguments_def p6_manifest_def lastPeriodOf_def)
qed

subsection \<open>The core playback observer: rebuilds\<close>

text \<open>
  Claim C2, as the code has it. Each rebuild constructs a new observation, which replaces the
  value of \<open>newRef\<close> wholesale, and leaves the base observation reference and its value as
  they were. It does mutate in place the one object that
  \<open>updateWantedPositionIfAfterManifest\<close> writes to, the position object of the base
  observation it reads, which the observation it constructs shares: of that object only the
  wanted position changes, and no other position object changes.
\<close>

theorem rebuild_mutates_only_wanted_position:
  "snd (constructCorePlaybackObservation args w) =
     w\<lparr> cw_positions :=
          updateWantedPositionIfAfterManifest (getValue (cw_observationRef w)) (cw_manifest w)
            (cw_positions w),
        cw_constructions := Suc (cw_constructions w) \<rparr> \<and>
   (\<forall>a. a \<noteq> obs_position (getValue (cw_observationRef w)) \<longrightarrow>
        cw_positions (snd (constructCorePlaybackObservation args w)) a = cw_positions w a) \<and>
   (\<forall>a. pos_polled (cw_positions (snd (constructCorePlaybackObservation args w)) a) =
        pos_polled (cw_positions w a)) \<and>
   core_position (fst (constructCorePlaybackObservation args w)) =
     obs_position (getValue (cw_observationRef w)) \<and>
   (cw_newRef w = Some r \<and> \<not> ref_disposed r \<longrightarrow>
      cw_newRef (emitCorePlaybackObservation args w) =
        Some (r\<lparr> ref_value := fst (constructCorePlaybackObservation args w) \<rparr>) \<and>
      cw_observationRef (emitCorePlaybackObservation args w) = cw_observationRef w \<and>
      cw_positions (emitCorePlaybackObservation args w) =
        cw_positions (snd (constructCorePlaybackObservation args w)))"
proof (intro conjI impI allI)
  show "snd (constructCorePlaybackObservation args w) =
     w\<lparr> cw_positions :=
          updateWantedPositionIfAfterManifest (getValue (cw_observationRef w)) (cw_manifest w)
            (cw_positions w),
        cw_constructions := Suc (cw_constructions w) \<rparr>"
    by (rule construct_world)
next
  fix a
  assume "a \<noteq> obs_position (getValue (cw_observationRef w))"
  then show "cw_positions (snd (constructCorePlaybackObservation args w)) a = cw_positions w a"
    using updateWanted_pointwise [of "getValue (cw_observationRef w)" "cw_manifest w"
        "cw_positions w" a]
    by (simp add: construct_world)
next
  fix a
  show "pos_polled (cw_positions (snd (constructCorePlaybackObservation args w)) a) =
        pos_polled (cw_positions w a)"
    by (simp add: construct_world updateWanted_polled)
next
  show "core_position (fst (constructCorePlaybackObservation args w)) =
     obs_position (getValue (cw_observationRef w))"
    by (rule construct_position)
next
  assume n: "cw_newRef w = Some r \<and> \<not> ref_disposed r"
  then have r: "cw_newRef w = Some r" and d: "\<not> ref_disposed r" by simp_all
  show "cw_newRef (emitCorePlaybackObservation args w) =
        Some (r\<lparr> ref_value := fst (constructCorePlaybackObservation args w) \<rparr>)"
    by (rule emit_effect(2) [OF r d])
  show "cw_observationRef (emitCorePlaybackObservation args w) = cw_observationRef w"
    using emit_effect(1) [OF r d, of args] by (simp add: same_sources_def)
  show "cw_positions (emitCorePlaybackObservation args w) =
        cw_positions (snd (constructCorePlaybackObservation args w))"
    by (rule emit_effect(4) [OF r d])
qed

text \<open>
  A construction in the example world, where the correction applies to the position object
  at address \<open>0\<close>: its wanted position becomes \<open>99\<close>, its polled position stays \<open>98\<close>, and the
  position object at address \<open>1\<close> keeps its wanted position \<open>99.5\<close>.
\<close>

theorem rebuild_mutates_only_wanted_position_witness:
  "pos_wanted (cw_positions (snd (constructCorePlaybackObservation example_arguments
     example_core_world)) 0) = Some 99 \<and>
   pos_polled (cw_positions (snd (constructCorePlaybackObservation example_arguments
     example_core_world)) 0) = 98 \<and>
   cw_positions (snd (constructCorePlaybackObservation example_arguments example_core_world)) 1 =
     \<lparr> pos_polled = 98, pos_wanted = Some 99.5 \<rparr>"
  using rebuild_mutates_only_wanted_position [of example_arguments example_core_world,
      THEN conjunct1]
  by (simp add: example_core_world_def p6_manifest_def p6_observation_def p6_positions_def
      getValue_def updateWantedPositionIfAfterManifest_def lastPeriodOf_def Let_def
      getWanted_def forceWantedPosition_def)

text \<open>
  The claim as it is written fails: the base observer publishes an observation of buffered
  ranges \<open>[0, 90)\<close> whose position object, at address \<open>1\<close>, has the wanted position \<open>99.5\<close>; the
  rebuild that this publication triggers overwrites the wanted position of that object, in
  place, with \<open>99\<close>.
\<close>

theorem published_observation_mutated_counterexample:
  "getWanted (cw_positions example_published_world 1) = 99.5 \<and>
   obs_position (getValue (cw_observationRef
     (observationRef_setValue example_arguments
        ((p6_observation [(0, 90)])\<lparr> obs_position := 1 \<rparr>) example_published_world))) = 1 \<and>
   getWanted (cw_positions
     (observationRef_setValue example_arguments
        ((p6_observation [(0, 90)])\<lparr> obs_position := 1 \<rparr>) example_published_world) 1) = 99"
  by code_simp



















end
